theory Spec2Isabelle
  imports Main "HOL-Library.Word"
begin

section \<open>JavaScript values, objects and strings\<close>

text \<open>
  The request manager (lib/request-manager.js) works on ordinary JavaScript values. Objects
  and functions are references into a heap of property tables, so that two names for one
  object see each other's writes. A number is a safe integer, from \<open>-2^53\<close> to
  \<open>2^53 - 1\<close>, held as a signed 54-bit word: each is a double and prints in full, with
  no exponent. Strings are lists of 8-bit characters. A property table holds the own data
  properties of an object.
\<close>

type_synonym addr = nat

type_synonym jsnum = "54 word"

datatype jsval =
    JUndefined
  | JNull
  | JBool bool
  | JNum jsnum
  | JStr string
  | JObject addr
  | JFunction addr

type_synonym jsobj = "string \<rightharpoonup> jsval"
type_synonym heap = "addr \<Rightarrow> jsobj"

text \<open>An error object: its constructor and its \<open>message\<close>.\<close>

datatype jserror = Error string | TypeError string

fun message :: "jserror \<Rightarrow> string" where
  "message (Error m) = m"
| "message (TypeError m) = m"

text \<open>The truth value of a value in a condition (\<open>if (v)\<close>, \<open>v ? a : b\<close>, \<open>a && b\<close>).\<close>

fun truthy :: "jsval \<Rightarrow> bool" where
  "truthy JUndefined = False"
| "truthy JNull = False"
| "truthy (JBool b) = b"
| "truthy (JNum n) = (n \<noteq> 0)"
| "truthy (JStr s) = (s \<noteq> [])"
| "truthy (JObject a) = True"
| "truthy (JFunction a) = True"

fun js_typeof :: "jsval \<Rightarrow> string" where
  "js_typeof JUndefined = ''undefined''"
| "js_typeof JNull = ''object''"
| "js_typeof (JBool b) = ''boolean''"
| "js_typeof (JNum n) = ''number''"
| "js_typeof (JStr s) = ''string''"
| "js_typeof (JObject a) = ''object''"
| "js_typeof (JFunction a) = ''function''"

text \<open>Decimal digits of a natural number and of an integer.\<close>

fun show_nat :: "nat \<Rightarrow> string" where
  "show_nat n =
     (if n < 10 then [''0123456789'' ! n]
      else show_nat (n div 10) @ [''0123456789'' ! (n mod 10)])"

declare show_nat.simps [simp del]

definition show_int :: "int \<Rightarrow> string" where
  "show_int i = (if i < 0 then CHR ''-'' # show_nat (nat (- i)) else show_nat (nat i))"

text \<open>
  The primitive values (all values but objects and functions) and their strings
  (\<open>ToString\<close> on a primitive).
\<close>

datatype prim = PUndefined | PNull | PBool bool | PNum jsnum | PStr string

fun as_prim :: "jsval \<Rightarrow> prim option" where
  "as_prim JUndefined = Some PUndefined"
| "as_prim JNull = Some PNull"
| "as_prim (JBool b) = Some (PBool b)"
| "as_prim (JNum n) = Some (PNum n)"
| "as_prim (JStr s) = Some (PStr s)"
| "as_prim (JObject a) = None"
| "as_prim (JFunction a) = None"

fun prim_string :: "prim \<Rightarrow> string" where
  "prim_string PUndefined = ''undefined''"
| "prim_string PNull = ''null''"
| "prim_string (PBool b) = (if b then ''true'' else ''false'')"
| "prim_string (PNum n) = show_int (sint n)"
| "prim_string (PStr s) = s"

text \<open>The own property of an object or function, \<open>undefined\<close> when it has none of the name.\<close>

fun own_prop :: "heap \<Rightarrow> jsval \<Rightarrow> string \<Rightarrow> jsval" where
  "own_prop h (JObject a) name = (case h a name of None \<Rightarrow> JUndefined | Some v \<Rightarrow> v)"
| "own_prop h (JFunction a) name = (case h a name of None \<Rightarrow> JUndefined | Some v \<Rightarrow> v)"
| "own_prop h v name = JUndefined"

text \<open>
  Writing \<open>v.name = x\<close>: a TypeError on \<open>undefined\<close> and \<open>null\<close>, a store into the object
  or function, and nothing at all on the other primitives (the module is not in strict
  mode).
\<close>

fun js_set :: "heap \<Rightarrow> jsval \<Rightarrow> string \<Rightarrow> jsval \<Rightarrow> jserror + heap" where
  "js_set h JUndefined name x = Inl (TypeError (''Cannot set property '' @ name @ '' of undefined''))"
| "js_set h JNull name x = Inl (TypeError (''Cannot set property '' @ name @ '' of null''))"
| "js_set h (JObject a) name x = Inr (h(a := (h a)(name \<mapsto> x)))"
| "js_set h (JFunction a) name x = Inr (h(a := (h a)(name \<mapsto> x)))"
| "js_set h v name x = Inr h"

text \<open>\<open>Array.prototype.join\<close> on an array of strings.\<close>

fun js_join :: "string \<Rightarrow> string list \<Rightarrow> string" where
  "js_join sep [] = []"
| "js_join sep [x] = x"
| "js_join sep (x # y # ys) = x @ sep @ js_join sep (y # ys)"

text \<open>
  The first occurrence of a pattern in a string: the text before it and the text after it.
  In a replacement text \<open>$$\<close> stands for a dollar, \<open>$&\<close> for the matched text, \<open>$`\<close> for
  the text before the match and \<open>$'\<close> for the text after it.
\<close>

fun split_first :: "string \<Rightarrow> string \<Rightarrow> (string \<times> string) option" where
  "split_first pat [] = (if pat = [] then Some ([], []) else None)"
| "split_first pat (c # cs) =
     (if take (length pat) (c # cs) = pat then Some ([], drop (length pat) (c # cs))
      else (case split_first pat cs of
              None \<Rightarrow> None
            | Some (pre, post) \<Rightarrow> Some (c # pre, post)))"

fun expand :: "string \<Rightarrow> string \<Rightarrow> string \<Rightarrow> string \<Rightarrow> string" where
  "expand matched pre post (c # d # r) =
     (if c = CHR ''$'' \<and> d = CHR ''$'' then CHR ''$'' # expand matched pre post r
      else if c = CHR ''$'' \<and> d = CHR ''&'' then matched @ expand matched pre post r
      else if c = CHR ''$'' \<and> d = CHR 0x60 then pre @ expand matched pre post r
      else if c = CHR ''$'' \<and> d = CHR 0x27 then post @ expand matched pre post r
      else c # expand matched pre post (d # r))"
| "expand matched pre post r = r"

text \<open>\<open>subject.replace(pat, str)\<close> for two strings.\<close>

definition replace_text :: "string \<Rightarrow> string \<Rightarrow> string \<Rightarrow> string" where
  "replace_text subject pat str =
     (case split_first pat subject of
        None \<Rightarrow> subject
      | Some (pre, post) \<Rightarrow> pre @ expand pat pre post str @ post)"

section \<open>Path parameters\<close>

text \<open>
  The character class of the pattern \<open>/(\:[a-z|A-Z|\_|\-]*)/g\<close>: the ranges \<open>a-z\<close> and
  \<open>A-Z\<close>, and the characters \<open>|\<close>, \<open>_\<close> and \<open>-\<close>.
\<close>

definition param_char :: "char \<Rightarrow> bool" where
  "param_char c =
     ((97 \<le> (of_char c :: nat) \<and> (of_char c :: nat) \<le> 122) \<or> c = CHR ''|''
      \<or> (65 \<le> (of_char c :: nat) \<and> (of_char c :: nat) \<le> 90) \<or> c = CHR ''_'' \<or> c = CHR ''-'')"

text \<open>
  All matches of a colon followed by the longest run of characters of a class, from left to
  right, each search starting where the last match ended.
\<close>

function scan :: "(char \<Rightarrow> bool) \<Rightarrow> string \<Rightarrow> string list" where
  "scan cls [] = []"
| "scan cls (c # cs) =
     (if c = CHR '':'' then (c # takeWhile cls cs) # scan cls (dropWhile cls cs)
      else scan cls cs)"
  by pat_completeness auto
termination
  by (relation "measure (\<lambda>(cls, s). length s)") (auto simp: length_dropWhile_le less_Suc_eq_le)

text \<open>\<open>options.path.match(/(\:[a-z|A-Z|\_|\-]*)/g) || []\<close>\<close>

definition pathParameters :: "string \<Rightarrow> string list" where
  "pathParameters template = scan param_char template"

section \<open>Collaborators and state\<close>

text \<open>
  Modelled from the spec: the Configuration Store (\<open>./configurations\<close>, not part of the
  sources). It holds the base URL, the user agent, the client id and secret and the two
  tokens, with plain getters and setters and no other logic. A value never set is
  \<open>undefined\<close>.
\<close>

record config =
  baseUrl :: string
  userAgent :: string
  clientId :: jsval
  clientSecret :: jsval
  accessToken :: jsval
  refreshToken :: jsval

text \<open>
  The schema validator (\<open>./validation\<close>, not part of the sources) is a parameter of the
  model: \<open>validate\<close> reads a schema and a payload and returns the list of violations,
  \<open>generateErrorMessage\<close> turns the list into one message.
\<close>

record 'e validation =
  validate :: "heap \<Rightarrow> jsval \<Rightarrow> jsval \<Rightarrow> 'e list"
  generateErrorMessage :: "'e list \<Rightarrow> string"

text \<open>
  An \<open>options\<close> object: the descriptor given to \<open>describe\<close> (its \<open>path\<close> and \<open>method\<close>)
  and the call intent given to \<open>exec\<close> and \<open>buildRequest\<close>. A field that is not set is
  \<open>undefined\<close>, or \<open>None\<close> for the headers.
\<close>

record options =
  path :: string
  "method" :: string
  payload :: jsval
  schema :: jsval
  headers :: "(string \<rightharpoonup> string) option"

text \<open>The request object handed to the transport (the \<open>request\<close> package).\<close>

record request =
  uri :: string
  req_method :: string
  req_headers :: "string \<rightharpoonup> string"
  qs :: jsval
  json :: jsval
  form :: jsval
  strictSSL :: bool

text \<open>
  The callbacks the module creates are closures; each is written as the data it captures.
  \<^item> \<open>Callback f\<close>: the caller's completion \<open>f\<close>, a function. Calling it is recorded;
    what the caller's code then does is not part of the module.
  \<^item> \<open>OperationCont d payload schema callback\<close>: the function given to
    \<open>generateAccessToken\<close> by a generated operation over descriptor \<open>d\<close>.
  \<^item> \<open>TokenCont k\<close>: the function given to \<open>exec\<close> by \<open>generateAccessToken\<close>.
  \<^item> \<open>RefreshCont k\<close>: the function given to \<open>exec\<close> by \<open>refreshAccessToken\<close>.
\<close>

datatype cont =
    Callback jsval
  | OperationCont nat jsval jsval jsval
  | TokenCont cont
  | RefreshCont cont

text \<open>
  The state of the process: the configuration, the heap with its next free address, the
  descriptors captured by the generated operations, the requests handed to the transport
  and not yet answered (each with the callback waiting for it), and the calls made to
  completions so far (the function, the error and the second argument).

  The last three fields are the code that is not the module's. \<open>proto\<close> holds the
  properties every object inherits (those of \<open>Object.prototype\<close>). \<open>fun_source\<close> is
  the source text of a function, which is what it prints as. \<open>fun_call f h this args\<close>
  is what a call of function \<open>f\<close> returns or throws on the heap \<open>h\<close>. The module calls a
  function for its value in two places only: as the replacement given to \<open>replace\<close>, and
  as the \<open>toString\<close> or \<open>valueOf\<close> of an object or function it turns into a string; such
  a call is taken to leave the state as it is.
\<close>

record state =
  cfg :: config
  heap :: heap
  next_addr :: addr
  descs :: "nat \<Rightarrow> options"
  outbox :: "(request \<times> cont) list"
  completions :: "(jsval \<times> jserror option \<times> jsval) list"
  proto :: jsobj
  fun_source :: "addr \<Rightarrow> string"
  fun_call :: "addr \<Rightarrow> heap \<Rightarrow> jsval \<Rightarrow> jsval list \<Rightarrow> jserror + jsval"

text \<open>An object literal: a fresh object with the given properties.\<close>

definition alloc :: "jsobj \<Rightarrow> state \<Rightarrow> jsval \<times> state" where
  "alloc obj s =
     (JObject (next_addr s),
      s\<lparr>heap := (heap s)(next_addr s := obj), next_addr := Suc (next_addr s)\<rparr>)"

section \<open>Property reads, strings of values, replace\<close>

text \<open>
  The value of \<open>v[name]\<close> where \<open>v\<close> is not \<open>undefined\<close> or \<open>null\<close>: the own property,
  else the inherited one, else \<open>undefined\<close>. For a boolean, a number or a string, and for
  a function, the properties of the nearer prototypes (\<open>String.prototype\<close>,
  \<open>Function.prototype\<close> and the like) are not modelled: the module reads from such a
  value only \<open>message\<close>, \<open>access_token\<close> and \<open>refresh_token\<close>, which are not among them.
\<close>

definition inherited :: "state \<Rightarrow> string \<Rightarrow> jsval" where
  "inherited s name = (case proto s name of None \<Rightarrow> JUndefined | Some x \<Rightarrow> x)"

fun lookup :: "state \<Rightarrow> jsval \<Rightarrow> string \<Rightarrow> jsval" where
  "lookup s JUndefined name = JUndefined"
| "lookup s JNull name = JUndefined"
| "lookup s (JObject a) name =
     (case heap s a name of None \<Rightarrow> inherited s name | Some x \<Rightarrow> x)"
| "lookup s (JFunction a) name =
     (case heap s a name of None \<Rightarrow> inherited s name | Some x \<Rightarrow> x)"
| "lookup s v name = inherited s name"

text \<open>Reading \<open>v.name\<close>: a TypeError on \<open>undefined\<close> and \<open>null\<close>.\<close>

definition js_get :: "state \<Rightarrow> jsval \<Rightarrow> string \<Rightarrow> jserror + jsval" where
  "js_get s v name =
     (if v = JUndefined then Inl (TypeError (''Cannot read property '' @ name @ '' of undefined''))
      else if v = JNull then Inl (TypeError (''Cannot read property '' @ name @ '' of null''))
      else Inr (lookup s v name))"

text \<open>
  The string of a value (\<open>ToString\<close>). A primitive has its own string. An object is asked
  for a primitive first: its \<open>toString\<close> is called if it is a function, then its
  \<open>valueOf\<close>, and the first primitive returned is taken; with none the conversion throws
  a TypeError. A function that has no \<open>toString\<close> of its own prints as its source text.
\<close>

definition call_method :: "state \<Rightarrow> jsval \<Rightarrow> string \<Rightarrow> jserror + prim option" where
  "call_method s v name =
     (case lookup s v name of
        JFunction f \<Rightarrow>
          (case fun_call s f (heap s) v [] of
             Inl e \<Rightarrow> Inl e
           | Inr r \<Rightarrow> Inr (as_prim r))
      | _ \<Rightarrow> Inr None)"

definition default_value :: "state \<Rightarrow> jsval \<Rightarrow> jserror + prim" where
  "default_value s v =
     (case call_method s v ''toString'' of
        Inl e \<Rightarrow> Inl e
      | Inr (Some p) \<Rightarrow> Inr p
      | Inr None \<Rightarrow>
          (case call_method s v ''valueOf'' of
             Inl e \<Rightarrow> Inl e
           | Inr (Some p) \<Rightarrow> Inr p
           | Inr None \<Rightarrow> Inl (TypeError ''Cannot convert object to primitive value'')))"

definition to_string :: "state \<Rightarrow> jsval \<Rightarrow> jserror + string" where
  "to_string s v =
     (case as_prim v of
        Some p \<Rightarrow> Inr (prim_string p)
      | None \<Rightarrow>
          (case v of
             JFunction f \<Rightarrow>
               if heap s f ''toString'' = None then Inr (fun_source s f)
               else map_sum id prim_string (default_value s v)
           | _ \<Rightarrow> map_sum id prim_string (default_value s v)))"

text \<open>
  \<open>subject.replace(pat, v)\<close> with a string pattern. A function \<open>v\<close> is called, when the
  pattern occurs, with the matched text, its position (a length, far below \<open>2^53\<close>) and
  the subject, and the string of what it returns is put in place of the match as it is.
  Any other \<open>v\<close> is turned into a string first, and the string is the replacement text.
\<close>

definition js_replace :: "state \<Rightarrow> string \<Rightarrow> string \<Rightarrow> jsval \<Rightarrow> jserror + string" where
  "js_replace s subject pat v =
     (case v of
        JFunction f \<Rightarrow>
          (case split_first pat subject of
             None \<Rightarrow> Inr subject
           | Some (pre, post) \<Rightarrow>
               (case fun_call s f (heap s) JUndefined
                       [JStr pat, JNum (of_nat (length pre)), JStr subject] of
                  Inl e \<Rightarrow> Inl e
                | Inr r \<Rightarrow>
                    (case to_string s r of
                       Inl e \<Rightarrow> Inl e
                     | Inr str \<Rightarrow> Inr (pre @ str @ post))))
      | _ \<Rightarrow>
          (case to_string s v of
             Inl e \<Rightarrow> Inl e
           | Inr str \<Rightarrow> Inr (replace_text subject pat str)))"

section \<open>The request builder\<close>

definition JSON_MIME_TYPE :: string where
  "JSON_MIME_TYPE = ''application/json''"

definition FORM_MIME_TYPE :: string where
  "FORM_MIME_TYPE = ''application/x-www-form-urlencoded''"

text \<open>\<open>options.headers ? (options.headers[name] || JSON_MIME_TYPE) : JSON_MIME_TYPE\<close>\<close>

definition header_or_json :: "options \<Rightarrow> string \<Rightarrow> string" where
  "header_or_json opts name =
     (case headers opts of
        None \<Rightarrow> JSON_MIME_TYPE
      | Some hs \<Rightarrow> (case hs name of
                     None \<Rightarrow> JSON_MIME_TYPE
                   | Some v \<Rightarrow> if v \<noteq> [] then v else JSON_MIME_TYPE))"

text \<open>
  The last steps of \<open>buildRequest\<close>: \<open>request.qs.access_token = getAccessToken()\<close>, then
  \<open>strictSSL\<close>. The store fails with a TypeError when \<open>request.qs\<close> is \<open>null\<close> or
  \<open>undefined\<close>.
\<close>

definition finish_request :: "request \<Rightarrow> state \<Rightarrow> (jserror + request) \<times> state" where
  "finish_request req s =
     (case js_set (heap s) (qs req) ''access_token'' (accessToken (cfg s)) of
        Inl e \<Rightarrow> (Inl e, s)
      | Inr h \<Rightarrow> (Inr (req\<lparr>strictSSL := True\<rparr>), s\<lparr>heap := h\<rparr>))"

definition buildRequest :: "'e validation \<Rightarrow> options \<Rightarrow> state \<Rightarrow> (jserror + request) \<times> state" where
  "buildRequest v opts s =
     (let (fresh_qs, s1) = alloc Map.empty s;
          req = \<lparr> uri = baseUrl (cfg s) @ path opts,
                  req_method = method opts,
                  req_headers = [''user-agent'' \<mapsto> userAgent (cfg s),
                                 ''accept'' \<mapsto> header_or_json opts ''accept'',
                                 ''content-type'' \<mapsto> header_or_json opts ''content-type''],
                  qs = fresh_qs,
                  json = JBool True,
                  form = JUndefined,
                  strictSSL = False \<rparr>
      in if req_method req = ''GET'' then
           finish_request (req\<lparr>qs := payload opts\<rparr>) s1
         else if req_headers req ''content-type'' = Some JSON_MIME_TYPE then
           (if truthy (schema opts)
               \<and> validate v (heap s1) (schema opts) (payload opts) \<noteq> []
            then (Inl (Error (generateErrorMessage v
                               (validate v (heap s1) (schema opts) (payload opts)))), s1)
            else finish_request (req\<lparr>json := payload opts\<rparr>) s1)
         else
           finish_request (req\<lparr>form := payload opts\<rparr>) s1)"

section \<open>The executor and the callbacks\<close>

text \<open>
  \<open>exec\<close> builds the request, gives a failure of the build to the callback, and otherwise
  hands the request to the transport together with the callback. \<open>apply_cont\<close> runs one
  of the module's callbacks on \<open>(err, response)\<close>. Both return the error thrown, if any,
  and the new state.
\<close>

fun cont_rank :: "cont \<Rightarrow> nat" where
  "cont_rank (Callback f) = 0"
| "cont_rank (OperationCont d pl sch callback) = 1"
| "cont_rank (TokenCont k) = Suc (cont_rank k)"
| "cont_rank (RefreshCont k) = Suc (cont_rank k)"

function exec :: "'e validation \<Rightarrow> options \<Rightarrow> cont \<Rightarrow> state \<Rightarrow> jserror option \<times> state"
  and apply_cont :: "'e validation \<Rightarrow> cont \<Rightarrow> jserror option \<Rightarrow> jsval \<Rightarrow> state \<Rightarrow> jserror option \<times> state"
where
  "exec v opts k s =
     (case buildRequest v opts s of
        (Inl e, s1) \<Rightarrow> apply_cont v k (Some e) JNull s1
      | (Inr req, s1) \<Rightarrow> (None, s1\<lparr>outbox := outbox s1 @ [(req, k)]\<rparr>))"
| "apply_cont v (Callback f) err response s =
     (None, s\<lparr>completions := completions s @ [(f, err, response)]\<rparr>)"
| "apply_cont v (OperationCont d pl sch callback) err response s =
     (if err \<noteq> None then apply_cont v (Callback callback) err JNull s
      else exec v \<lparr> path = path (descs s d), method = method (descs s d),
                    payload = pl, schema = sch, headers = None \<rparr> (Callback callback) s)"
| "apply_cont v (TokenCont k) err response s =
     (case err of
        Some e \<Rightarrow>
          apply_cont v k (Some (Error (''Error getting the access_token: '' @ message e))) JNull s
      | None \<Rightarrow>
          (case js_get s response ''body'' of
             Inl t \<Rightarrow> (Some t, s)
           | Inr body \<Rightarrow>
               (case js_get s body ''access_token'' of
                  Inl t \<Rightarrow> (Some t, s)
                | Inr token \<Rightarrow>
                    apply_cont v k None token
                      (s\<lparr>cfg := (cfg s)\<lparr>accessToken := token,
                                         refreshToken := lookup s body ''refresh_token''\<rparr>\<rparr>))))"
| "apply_cont v (RefreshCont k) err response s =
     (case err of
        Some e \<Rightarrow>
          apply_cont v k (Some (Error (''Error refreshing previous access_token: '' @ message e))) JNull s
      | None \<Rightarrow>
          (case js_get s response ''body'' of
             Inl t \<Rightarrow> (Some t, s)
           | Inr body \<Rightarrow>
               (case js_get s body ''access_token'' of
                  Inl t \<Rightarrow> (Some t, s)
                | Inr token \<Rightarrow>
                    apply_cont v k None token
                      (s\<lparr>cfg := (cfg s)\<lparr>accessToken := token,
                                         refreshToken := lookup s body ''refresh_token''\<rparr>\<rparr>))))"
  by pat_completeness auto
termination
  by (relation "measure (\<lambda>x. case x of
                           Inl (v, opts, k, s) \<Rightarrow> 2 * cont_rank k + 1
                         | Inr (v, k, err, response, s) \<Rightarrow> 2 * cont_rank k)") auto

text \<open>
  The function \<open>exec\<close> gives to the transport, run when the transport answers the request
  whose callback is \<open>k\<close>: with a transport error, or with a status code and a parsed body.
  Reading \<open>body.message\<close> throws when the body is \<open>undefined\<close> or \<open>null\<close>, and so does
  \<open>new Error(body.message)\<close> when the message has no string; nothing catches it.
\<close>

definition on_response ::
  "'e validation \<Rightarrow> cont \<Rightarrow> jserror option \<Rightarrow> jsnum \<Rightarrow> jsval \<Rightarrow> state \<Rightarrow> jserror option \<times> state" where
  "on_response v k error statusCode body s =
     (case error of
        Some e \<Rightarrow> apply_cont v k (Some e) JNull s
      | None \<Rightarrow>
          if sint statusCode < 200 \<or> sint statusCode \<ge> 300 then
            (case js_get s body ''message'' of
               Inl t \<Rightarrow> (Some t, s)
             | Inr m \<Rightarrow>
                 if truthy m then
                   (case to_string s m of
                      Inl t \<Rightarrow> (Some t, s)
                    | Inr str \<Rightarrow> apply_cont v k (Some (Error str)) JNull s)
                 else apply_cont v k (Some (Error ''Unknown Error'')) JNull s)
          else
            (let (result, s1) = alloc [''status'' \<mapsto> JNum statusCode, ''body'' \<mapsto> body] s
             in apply_cont v k None result s1))"


section \<open>The token manager\<close>

definition generateAccessToken :: "'e validation \<Rightarrow> cont \<Rightarrow> state \<Rightarrow> jserror option \<times> state" where
  "generateAccessToken v callback s =
     (if truthy (accessToken (cfg s)) then
        apply_cont v callback None (accessToken (cfg s)) s
      else if \<not> truthy (clientId (cfg s)) \<or> \<not> truthy (clientSecret (cfg s)) then
        apply_cont v callback (Some (Error ''Must set client_id and client_secret'')) JNull s
      else
        (let (pl, s1) = alloc [''client_id'' \<mapsto> clientId (cfg s),
                               ''client_secret'' \<mapsto> clientSecret (cfg s),
                               ''grant_type'' \<mapsto> JStr ''client_credentials''] s
         in exec v \<lparr> path = ''/oauth/token'', method = ''POST'', payload = pl,
                      schema = JUndefined, headers = None \<rparr> (TokenCont callback) s1))"

definition refreshAccessToken :: "'e validation \<Rightarrow> cont \<Rightarrow> state \<Rightarrow> jserror option \<times> state" where
  "refreshAccessToken v callback s =
     (if \<not> truthy (refreshToken (cfg s)) then
        apply_cont v callback
          (Some (Error ''You need the refresh_token to refresh the access_token'')) JNull s
      else
        (let (pl, s1) = alloc [''client_secret'' \<mapsto> accessToken (cfg s),
                               ''grant_type'' \<mapsto> JStr ''refresh_token''] s
         in exec v \<lparr> path = ''/oauth/token'', method = ''POST'', payload = pl,
                      schema = JUndefined, headers = None \<rparr> (RefreshCont callback) s1))"

section \<open>The operation factory\<close>

text \<open>\<open>arguments[i]\<close>: \<open>undefined\<close> outside the arguments.\<close>

definition arg_at :: "jsval list \<Rightarrow> int \<Rightarrow> jsval" where
  "arg_at args i = (if 0 \<le> i \<and> i < int (length args) then args ! nat i else JUndefined)"

definition set_path :: "nat \<Rightarrow> string \<Rightarrow> state \<Rightarrow> state" where
  "set_path d p s = s\<lparr>descs := (descs s)(d := (descs s d)\<lparr>path := p\<rparr>)\<rparr>"

text \<open>
  The loop of the GET and DELETE branch, over the parameters with their indices:
  \<open>options.path = options.path.replace(param, _arguments[index])\<close> for each parameter.
  An error thrown by \<open>replace\<close> ends the loop and the call.
\<close>

fun substitute_args ::
  "nat \<Rightarrow> jsval list \<Rightarrow> (nat \<times> string) list \<Rightarrow> state \<Rightarrow> jserror option \<times> state" where
  "substitute_args d args [] s = (None, s)"
| "substitute_args d args ((index, param) # rest) s =
     (case js_replace s (path (descs s d)) param (arg_at args (int index)) of
        Inl e \<Rightarrow> (Some e, s)
      | Inr p \<Rightarrow> substitute_args d args rest (set_path d p s))"

text \<open>
  The loop of the other branch: a parameter whose property of the payload (own or
  inherited) is truthy is substituted, the others are collected in \<open>missingProperties\<close>.
\<close>

fun substitute_payload ::
  "nat \<Rightarrow> jsval \<Rightarrow> string list \<Rightarrow> string list \<Rightarrow> state \<Rightarrow> (jserror + string list) \<times> state" where
  "substitute_payload d pl [] missingProperties s = (Inr missingProperties, s)"
| "substitute_payload d pl (param # rest) missingProperties s =
     (let propertyFromPayload = replace_text param '':'' []
      in if truthy pl \<and> truthy (lookup s pl propertyFromPayload) then
           (case js_replace s (path (descs s d)) param (lookup s pl propertyFromPayload) of
              Inl e \<Rightarrow> (Inl e, s)
            | Inr p \<Rightarrow> substitute_payload d pl rest missingProperties (set_path d p s))
         else substitute_payload d pl rest (missingProperties @ [propertyFromPayload]) s)"

text \<open>
  The function returned by \<open>describe(options)\<close>, called with \<open>args\<close> on an object whose
  \<open>schema\<close> property is \<open>this_schema\<close>; \<open>d\<close> names the \<open>options\<close> object the closure holds.
  The result is the error thrown to the caller, if any, and the new state.
\<close>

definition operation ::
  "'e validation \<Rightarrow> nat \<Rightarrow> jsval \<Rightarrow> jsval list \<Rightarrow> state \<Rightarrow> jserror option \<times> state" where
  "operation v d this_schema args s =
     (let callback = arg_at args (int (length args) - 1)
      in if js_typeof callback \<noteq> ''function'' \<or> callback = JUndefined then
           (Some (Error ''Callback is required''), s)
         else
           (let params = pathParameters (path (descs s d));
                (pl, s1) = (if js_typeof (arg_at args (int (length args) - 2)) = ''object''
                            then (arg_at args (int (length args) - 2), s)
                            else alloc Map.empty s)
            in if method (descs s1 d) = ''GET'' \<or> method (descs s1 d) = ''DELETE'' then
                 (if length params + 1 > length args then
                    (Some (Error (''Expecting parameters: ''
                                  @ filter (\<lambda>c. c \<noteq> CHR '':'') (js_join '', '' params))), s1)
                  else
                    (case substitute_args d args (enumerate 0 params) s1 of
                       (Some e, s2) \<Rightarrow> (Some e, s2)
                     | (None, s2) \<Rightarrow>
                         generateAccessToken v (OperationCont d pl this_schema callback) s2))
               else
                 (case substitute_payload d pl params [] s1 of
                    (Inl e, s2) \<Rightarrow> (Some e, s2)
                  | (Inr missingProperties, s2) \<Rightarrow>
                      if length missingProperties > 0 then
                        (Some (Error (''The JSON is missing the following properties: ''
                                      @ js_join '', '' missingProperties)), s2)
                      else
                        generateAccessToken v (OperationCont d pl this_schema callback) s2)))"

section \<open>Runs of calls\<close>


text \<open>The state once the result object \<open>{status, body}\<close> of a response has been made.\<close>

definition with_result :: "jsnum \<Rightarrow> jsval \<Rightarrow> state \<Rightarrow> state" where
  "with_result statusCode body s =
     snd (alloc [''status'' \<mapsto> JNum statusCode, ''body'' \<mapsto> body] s)"





section \<open>The specification's wording\<close>

text \<open>
  The specification describes a placeholder as a colon followed by letters, digits,
  underscores and hyphens. \<open>claimed_placeholders\<close> follows these words;
  \<open>letter_placeholders\<close> leaves the digits out.
\<close>

definition letter :: "char \<Rightarrow> bool" where
  "letter c =
     ((97 \<le> (of_char c :: nat) \<and> (of_char c :: nat) \<le> 122)
      \<or> (65 \<le> (of_char c :: nat) \<and> (of_char c :: nat) \<le> 90))"

definition digit :: "char \<Rightarrow> bool" where
  "digit c = (48 \<le> (of_char c :: nat) \<and> (of_char c :: nat) \<le> 57)"

definition claimed_placeholders :: "string \<Rightarrow> string list" where
  "claimed_placeholders template =
     scan (\<lambda>c. letter c \<or> digit c \<or> c = CHR ''_'' \<or> c = CHR ''-'') template"

definition letter_placeholders :: "string \<Rightarrow> string list" where
  "letter_placeholders template =
     scan (\<lambda>c. letter c \<or> c = CHR ''_'' \<or> c = CHR ''-'') template"

text \<open>
  The names of the placeholders that the positional arguments before the callback do not
  reach, colon stripped, in template order.
\<close>

definition unfilled_names :: "string \<Rightarrow> jsval list \<Rightarrow> string list" where
  "unfilled_names template args = map tl (drop (length args - 1) (pathParameters template))"

section \<open>Example inputs\<close>

text \<open>
  A validator that requires a \<open>name\<close> property, a configuration with client credentials,
  and a heap holding two token responses (objects 1 and 2), a response body with an empty
  message (3), a schema (4), a response body with a message (7), and the callers'
  completions (functions 5 and 6).
\<close>

definition example_validation :: "string validation" where
  "example_validation =
     \<lparr> validate = (\<lambda>h sch p. if own_prop h p ''name'' = JUndefined
                               then [''name is required''] else []),
       generateErrorMessage = js_join ''; '' \<rparr>"

definition example_config :: "jsval \<Rightarrow> jsval \<Rightarrow> config" where
  "example_config token refresh =
     \<lparr> baseUrl = ''https://api.example'', userAgent = ''dx'', clientId = JStr ''id'',
       clientSecret = JStr ''secret'', accessToken = token, refreshToken = refresh \<rparr>"

definition example_heap :: heap where
  "example_heap =
     (\<lambda>a. Map.empty)
       (1 := [''access_token'' \<mapsto> JStr ''T1'', ''refresh_token'' \<mapsto> JStr ''R1''],
        2 := [''access_token'' \<mapsto> JStr ''T2'', ''refresh_token'' \<mapsto> JStr ''R2''],
        3 := [''message'' \<mapsto> JStr []],
        4 := [''required'' \<mapsto> JStr ''name''],
        7 := [''message'' \<mapsto> JStr ''Not Found''])"

text \<open>
  The functions of \<open>Object.prototype\<close> in ECMAScript 5, as functions 100 to 106, and
  what they return when the module calls them: as a replacement (no \<open>this\<close>; the matched
  text, its position and the subject as arguments) or as the \<open>toString\<close> or \<open>valueOf\<close>
  of an object (the object as \<open>this\<close>, no arguments). An object made by a call stands
  as a value that prints like it: the wrapper that \<open>Object\<close> makes of a string as the
  string, the empty object it makes of nothing as \<open>this\<close>. Any other function is one
  that returns \<open>undefined\<close>, as a completion does.
\<close>

definition example_proto :: jsobj where
  "example_proto =
     [''constructor'' \<mapsto> JFunction 100, ''toString'' \<mapsto> JFunction 101,
      ''toLocaleString'' \<mapsto> JFunction 102, ''valueOf'' \<mapsto> JFunction 103,
      ''hasOwnProperty'' \<mapsto> JFunction 104, ''isPrototypeOf'' \<mapsto> JFunction 105,
      ''propertyIsEnumerable'' \<mapsto> JFunction 106]"

fun class_string :: "jsval \<Rightarrow> string" where
  "class_string JUndefined = ''[object Undefined]''"
| "class_string JNull = ''[object Null]''"
| "class_string (JBool b) = ''[object Boolean]''"
| "class_string (JNum n) = ''[object Number]''"
| "class_string (JStr s) = ''[object String]''"
| "class_string (JObject a) = ''[object Object]''"
| "class_string (JFunction a) = ''[object Function]''"

definition key_of :: "jsval list \<Rightarrow> string" where
  "key_of args =
     (case args of
        [] \<Rightarrow> ''undefined''
      | x # xs \<Rightarrow> (case as_prim x of Some p \<Rightarrow> prim_string p | None \<Rightarrow> ''[object Object]''))"

definition no_object :: "jserror + jsval" where
  "no_object = Inl (TypeError ''Cannot convert undefined or null to object'')"

definition example_call :: "addr \<Rightarrow> heap \<Rightarrow> jsval \<Rightarrow> jsval list \<Rightarrow> jserror + jsval" where
  "example_call f h this args =
     (if f = 100 then
        (case args of [] \<Rightarrow> Inr this | x # xs \<Rightarrow> if x = JUndefined \<or> x = JNull then Inr this else Inr x)
      else if f = 101 then Inr (JStr (class_string this))
      else if f = 102 then
        (if this = JUndefined \<or> this = JNull then no_object else Inr (JStr (class_string this)))
      else if f = 103 then
        (if this = JUndefined \<or> this = JNull then no_object else Inr this)
      else if f = 104 \<or> f = 106 then
        (if this = JUndefined \<or> this = JNull then no_object
         else Inr (JBool (case this of
                            JObject a \<Rightarrow> h a (key_of args) \<noteq> None
                          | JFunction a \<Rightarrow> h a (key_of args) \<noteq> None
                          | _ \<Rightarrow> False)))
      else if f = 105 then
        (case args of
           JObject a # xs \<Rightarrow> if this = JUndefined \<or> this = JNull then no_object else Inr (JBool False)
         | JFunction a # xs \<Rightarrow> if this = JUndefined \<or> this = JNull then no_object else Inr (JBool False)
         | _ \<Rightarrow> Inr (JBool False))
      else Inr JUndefined)"

definition example_source :: "addr \<Rightarrow> string" where
  "example_source f =
     (if f = 100 then ''function Object() { [native code] }''
      else if f = 101 then ''function toString() { [native code] }''
      else if f = 102 then ''function toLocaleString() { [native code] }''
      else if f = 103 then ''function valueOf() { [native code] }''
      else if f = 104 then ''function hasOwnProperty() { [native code] }''
      else if f = 105 then ''function isPrototypeOf() { [native code] }''
      else if f = 106 then ''function propertyIsEnumerable() { [native code] }''
      else ''function (err, response) {}'')"

definition example_state :: "string \<Rightarrow> string \<Rightarrow> jsval \<Rightarrow> jsval \<Rightarrow> state" where
  "example_state p m token refresh =
     \<lparr> cfg = example_config token refresh,
       heap = example_heap,
       next_addr = 10,
       descs = (\<lambda>d. \<lparr> path = p, method = m, payload = JUndefined, schema = JUndefined,
                       headers = None \<rparr>),
       outbox = [],
       completions = [],
       proto = example_proto,
       fun_source = example_source,
       fun_call = example_call \<rparr>"



section \<open>Facts about the helpers\<close>

lemma arg_at_last: "args \<noteq> [] \<Longrightarrow> arg_at args (int (length args) - 1) = last args"
  by (cases args rule: rev_cases) (auto simp: arg_at_def nth_append)

lemma arg_at_Nil: "arg_at [] i = JUndefined"
  by (auto simp: arg_at_def)

text \<open>Two character classes that agree on the characters of a string give the same matches.\<close>

lemma scan_cong: "(\<And>c. c \<in> set p \<Longrightarrow> f c = g c) \<Longrightarrow> scan f p = scan g p"
proof (induction f p rule: scan.induct)
  case (1 cls)
  then show ?case by simp
next
  case (2 cls c cs)
  have tw: "takeWhile cls cs = takeWhile g cs"
    by (rule takeWhile_cong) (auto simp: 2)
  have dw: "dropWhile cls cs = dropWhile g cs"
    by (rule dropWhile_cong) (auto simp: 2)
  have sub: "set (dropWhile g cs) \<subseteq> set cs"
    by (metis set_dropWhileD subsetI)
  show ?case
  proof (cases "c = CHR '':''")
    case True
    have "scan cls (dropWhile cls cs) = scan g (dropWhile cls cs)"
      using "2.IH"(1)[OF True] "2.prems" sub dw by auto
    with True tw dw show ?thesis by simp
  next
    case False
    have "scan cls cs = scan g cs"
      using "2.IH"(2)[OF False] "2.prems" by auto
    with False show ?thesis by simp
  qed
qed

text \<open>Every match is a colon followed by characters of the class.\<close>

lemma scan_shape:
  "p \<in> set (scan cls s) \<Longrightarrow> \<exists>name. p = CHR '':'' # name \<and> (\<forall>c\<in>set name. cls c)"
proof (induction cls s rule: scan.induct)
  case (1 cls)
  then show ?case by simp
next
  case (2 cls c cs)
  then show ?case
    by (auto split: if_splits dest: set_takeWhileD)
qed

text \<open>
  Removing the colons from the joined parameters leaves the joined names: the separator
  has no colon, and a parameter has only its leading one.
\<close>

lemma strip_colons_join:
  assumes "\<forall>p\<in>set ps. \<exists>name. p = CHR '':'' # name \<and> CHR '':'' \<notin> set name"
  shows "filter (\<lambda>c. c \<noteq> CHR '':'') (js_join '', '' ps) = js_join '', '' (map tl ps)"
  using assms
proof (induction "'', ''" ps rule: js_join.induct)
  case 1
  then show ?case by simp
next
  case (2 x)
  then obtain name where "x = CHR '':'' # name" "CHR '':'' \<notin> set name" by auto
  then show ?case by (auto simp: filter_id_conv)
next
  case (3 x y ys)
  then obtain name where x: "x = CHR '':'' # name" "CHR '':'' \<notin> set name" by auto
  then have "filter (\<lambda>c. c \<noteq> CHR '':'') x = name"
    by (auto simp: filter_id_conv)
  with 3 x show ?case by simp
qed

lemma pathParameters_names:
  "filter (\<lambda>c. c \<noteq> CHR '':'') (js_join '', '' (pathParameters p))
     = js_join '', '' (map tl (pathParameters p))"
proof (rule strip_colons_join, rule ballI)
  fix q assume "q \<in> set (pathParameters p)"
  then obtain name where "q = CHR '':'' # name" "\<forall>c\<in>set name. param_char c"
    unfolding pathParameters_def using scan_shape by blast
  moreover have "\<not> param_char (CHR '':'')" by (simp add: param_char_def)
  ultimately show "\<exists>name. q = CHR '':'' # name \<and> CHR '':'' \<notin> set name" by blast
qed

lemmas build_defs =
  buildRequest_def finish_request_def alloc_def header_or_json_def JSON_MIME_TYPE_def Let_def

lemmas example_defs =
  example_state_def example_config_def example_heap_def example_validation_def
  example_proto_def

lemmas operation_defs =
  operation_def generateAccessToken_def set_path_def js_replace_def to_string_def
  replace_text_def arg_at_def pathParameters_def param_char_def show_int_def show_nat.simps

text \<open>The string of a primitive value needs no call.\<close>

lemma to_string_primitive:
  "to_string s JUndefined = Inr ''undefined''"
  "to_string s JNull = Inr ''null''"
  "to_string s (JBool b) = Inr (if b then ''true'' else ''false'')"
  "to_string s (JNum n) = Inr (show_int (sint n))"
  "to_string s (JStr x) = Inr x"
  by (simp_all add: to_string_def)







text \<open>
  The answers to any request whose caller waits with the completion \<open>f\<close>, when the
  status is outside [200, 300) and there is a body.
\<close>

lemma answer_no_message:
  assumes "body \<noteq> JUndefined" and "body \<noteq> JNull"
    and "sint statusCode < 200 \<or> 300 \<le> sint statusCode"
    and "\<not> truthy (lookup s body ''message'')"
  shows "on_response v (Callback f) None statusCode body s
           = (None, s\<lparr>completions := completions s
                @ [(f, Some (Error ''Unknown Error''), JNull)]\<rparr>)"
  using assms by (auto simp: on_response_def js_get_def)

lemma answer_message:
  assumes "body \<noteq> JUndefined" and "body \<noteq> JNull"
    and "sint statusCode < 200 \<or> 300 \<le> sint statusCode"
    and "truthy (lookup s body ''message'')"
    and "to_string s (lookup s body ''message'') = Inr str"
  shows "on_response v (Callback f) None statusCode body s
           = (None, s\<lparr>completions := completions s @ [(f, Some (Error str), JNull)]\<rparr>)"
  using assms by (auto simp: on_response_def js_get_def)

text \<open>
  A GET is built without the validator. Cases that end in a TypeError: a GET whose
  payload is \<open>null\<close> fails to build (and
  \<open>exec\<close> gives the error to the callback); a response outside [200, 300) whose body is
  \<open>undefined\<close> makes the transport's callback throw, and no completion is called; so
  does a response inside [200, 300) without a body when it answers a token request.
\<close>

lemma get_is_not_validated:
  "method opts = ''GET'' \<Longrightarrow> buildRequest v opts s = buildRequest v' opts s"
  by (simp add: build_defs)

lemma get_null_payload_fails:
  "method opts = ''GET'' \<Longrightarrow> payload opts = JNull \<Longrightarrow>
   fst (buildRequest v opts s) = Inl (TypeError ''Cannot set property access_token of null'')"
  by (simp add: build_defs)

lemma failure_without_body_throws:
  "sint statusCode < 200 \<or> 300 \<le> sint statusCode \<Longrightarrow>
   on_response v k None statusCode JUndefined s
     = (Some (TypeError ''Cannot read property message of undefined''), s)"
  by (auto simp: on_response_def js_get_def)

lemma token_answer_without_body_throws:
  "200 \<le> sint statusCode \<Longrightarrow> sint statusCode < 300 \<Longrightarrow>
   fst (on_response v (TokenCont k) None statusCode JUndefined s)
     = Some (TypeError ''Cannot read property access_token of undefined'')"
  by (simp add: on_response_def js_get_def alloc_def)

text \<open>
  A property that the payload inherits is not missing: for \<open>POST /items/:constructor\<close>
  called with an empty object the request is sent, to \<open>/items/:constructor\<close>.
\<close>

lemma inherited_property_is_not_missing:
  "\<exists>s'. operation example_validation 0 JUndefined [JObject 9, JFunction 5]
           (example_state ''/items/:constructor'' ''POST'' (JStr ''T'') JUndefined) = (None, s')
        \<and> map (\<lambda>(r, k). (uri r, k)) (outbox s')
            = [(''https://api.example/items/:constructor'', Callback (JFunction 5))]"
  by (simp add: operation_defs build_defs example_defs inherited_def example_call_def)

text \<open>
  The refresh without a stored refresh token: the error goes to the completion and no
  request is made. A successful answer to a refresh replaces both tokens.
\<close>

lemma refresh_without_refresh_token:
  "\<not> truthy (refreshToken (cfg s)) \<Longrightarrow>
   refreshAccessToken v (Callback f) s
     = (None, s\<lparr>completions := completions s
          @ [(f, Some (Error ''You need the refresh_token to refresh the access_token''), JNull)]\<rparr>)"
  by (simp add: refreshAccessToken_def)

lemma refresh_response_success:
  assumes "body \<noteq> JUndefined" and "body \<noteq> JNull"
    and "200 \<le> sint statusCode" and "sint statusCode < 300"
  shows "on_response v (RefreshCont (Callback f)) None statusCode body st
     = (None,
        (with_result statusCode body st)
          \<lparr>cfg := (cfg st)
             \<lparr>accessToken := lookup (with_result statusCode body st)
                               body ''access_token'',
              refreshToken := lookup (with_result statusCode body st)
                                body ''refresh_token''\<rparr>,
           completions := completions st
             @ [(f, None,
                 lookup (with_result statusCode body st)
                   body ''access_token'')]\<rparr>)"
  using assms by (cases body) (simp_all add: on_response_def with_result_def alloc_def js_get_def)

section \<open>The token manager: one exchange per call\<close>




section \<open>The refresh request\<close>

text \<open>
  C2 at a concrete store, with the access token \<open>A\<close> and the refresh token \<open>R\<close>: the
  refresh is a POST to \<open>/oauth/token\<close> whose JSON body is
  \<open>{client_secret: A, grant_type: refresh_token}\<close> and whose query string is
  \<open>{access_token: A}\<close>. The stored refresh token is not part of the request.
\<close>

theorem refresh_request_omits_refresh_token:
  "\<exists>req s'. refreshAccessToken example_validation (Callback (JFunction 5))
               (example_state ''/users'' ''GET'' (JStr ''A'') (JStr ''R'')) = (None, s')
     \<and> outbox s' = [(req, RefreshCont (Callback (JFunction 5)))]
     \<and> uri req = ''https://api.example/oauth/token''
     \<and> req_method req = ''POST''
     \<and> json req = JObject 10
     \<and> heap s' 10 = [''client_secret'' \<mapsto> JStr ''A'', ''grant_type'' \<mapsto> JStr ''refresh_token'']
     \<and> qs req = JObject 11
     \<and> heap s' 11 = [''access_token'' \<mapsto> JStr ''A'']
     \<and> form req = JUndefined"
  by (simp add: refreshAccessToken_def build_defs example_defs)

section \<open>Missing path arguments\<close>

text \<open>
  C3, as the specification states it, fails. For \<open>GET /a/:x/b/:y\<close> called as \<open>op(1, f)\<close>
  the argument fills \<open>:x\<close> and only \<open>:y\<close> is unfilled, yet the error names \<open>x\<close> and \<open>y\<close>.
\<close>

theorem missing_path_arguments_counterexample:
  "fst (operation example_validation 0 JUndefined [JNum 1, JFunction 5]
          (example_state ''/a/:x/b/:y'' ''GET'' (JStr ''T'') JUndefined))
     = Some (Error ''Expecting parameters: x, y'')
   \<and> unfilled_names ''/a/:x/b/:y'' [JNum 1, JFunction 5] = [''y'']"
  by (simp add: operation_def arg_at_def example_defs alloc_def pathParameters_def
      param_char_def unfilled_names_def)

text \<open>
  C3, amended: for every descriptor with k path placeholders and method GET or DELETE,
  calling the generated operation with a callable last argument and fewer than k
  arguments before it throws, synchronously, an error whose message lists the names of
  all k placeholders of the template, colon stripped, in template order
  (\<open>Expecting parameters: \<close> and the names joined by a comma and a space); no token is
  acquired, no request reaches the transport, no completion is called and the descriptor
  is unchanged.
\<close>

theorem missing_path_arguments:
  assumes "args \<noteq> []" and "js_typeof (last args) = ''function''"
    and "method (descs s d) = ''GET'' \<or> method (descs s d) = ''DELETE''"
    and "length args - 1 < length (pathParameters (path (descs s d)))"
  shows "\<exists>s'. operation v d this_schema args s
                = (Some (Error (''Expecting parameters: ''
                     @ js_join '', '' (map tl (pathParameters (path (descs s d)))))), s')
           \<and> cfg s' = cfg s \<and> descs s' = descs s
           \<and> outbox s' = outbox s \<and> completions s' = completions s"
proof -
  have cb: "js_typeof (arg_at args (int (length args) - 1)) = ''function''"
    using assms(1,2) by (simp add: arg_at_last)
  then have nu: "arg_at args (int (length args) - 1) \<noteq> JUndefined" by auto
  have few: "length args < Suc (length (pathParameters (path (descs s d))))"
    using assms(1,4) by (cases args) auto
  show ?thesis
    using cb nu few assms(3)
    by (auto simp: operation_def Let_def alloc_def pathParameters_names split: prod.splits)
qed

text \<open>The call \<open>op(1, f)\<close> on \<open>GET /a/:x/b/:y\<close>.\<close>

theorem missing_path_arguments_witness:
  "[JNum 1, JFunction 5] \<noteq> [] \<and> js_typeof (last [JNum 1, JFunction 5]) = ''function''
   \<and> (method (descs (example_state ''/a/:x/b/:y'' ''GET'' (JStr ''T'') JUndefined) 0) = ''GET''
        \<or> method (descs (example_state ''/a/:x/b/:y'' ''GET'' (JStr ''T'') JUndefined) 0) = ''DELETE'')
   \<and> length [JNum 1, JFunction 5] - 1
        < length (pathParameters (path (descs (example_state ''/a/:x/b/:y'' ''GET'' (JStr ''T'') JUndefined) 0)))
   \<and> (\<exists>s'. operation example_validation 0 JUndefined [JNum 1, JFunction 5]
               (example_state ''/a/:x/b/:y'' ''GET'' (JStr ''T'') JUndefined)
              = (Some (Error ''Expecting parameters: x, y''), s')
           \<and> outbox s' = [] \<and> completions s' = [])"
proof -
  let ?s = "example_state ''/a/:x/b/:y'' ''GET'' (JStr ''T'') JUndefined"
  have ps: "pathParameters (path (descs ?s 0)) = ['':x'', '':y'']"
    by (simp add: example_state_def pathParameters_def param_char_def)
  have h1: "[JNum 1, JFunction 5] \<noteq> []" by simp
  have h2: "js_typeof (last [JNum 1, JFunction 5]) = ''function''" by simp
  have h3: "method (descs ?s 0) = ''GET'' \<or> method (descs ?s 0) = ''DELETE''"
    by (simp add: example_state_def)
  have h4: "length [JNum 1, JFunction 5] - 1 < length (pathParameters (path (descs ?s 0)))"
    by (simp add: ps)
  have e: "outbox ?s = []" "completions ?s = []" by (simp_all add: example_state_def)
  from missing_path_arguments [OF h1 h2 h3 h4, of example_validation JUndefined]
  show ?thesis using h1 h2 h3 h4 by (auto simp: ps e)
qed

section \<open>The path template across calls\<close>

text \<open>
  C4 at a concrete descriptor, \<open>GET /users/:id\<close> with a token stored: before the first
  call the path is \<open>/users/:id\<close>; after \<open>op(1, f)\<close> the descriptor's path is \<open>/users/1\<close>;
  and the later call \<open>op(2, g)\<close> sends its request to \<open>/users/1\<close> as well.
\<close>

theorem descriptor_path_overwritten:
  "path (descs (example_state ''/users/:id'' ''GET'' (JStr ''T'') JUndefined) 0) = ''/users/:id''
   \<and> path (descs (snd (operation example_validation 0 JUndefined [JNum 1, JFunction 5]
                         (example_state ''/users/:id'' ''GET'' (JStr ''T'') JUndefined))) 0)
       = ''/users/1''
   \<and> map (\<lambda>(r, k). (uri r, k))
        (outbox (snd (operation example_validation 0 JUndefined [JNum 2, JFunction 6]
           (snd (operation example_validation 0 JUndefined [JNum 1, JFunction 5]
              (example_state ''/users/:id'' ''GET'' (JStr ''T'') JUndefined))))))
       = [(''https://api.example/users/1'', Callback (JFunction 5)),
          (''https://api.example/users/1'', Callback (JFunction 6))]"
  by (simp add: operation_defs build_defs example_defs)

text \<open>Hence the call \<open>op(1, f)\<close> changes the path of the descriptor.\<close>

theorem descriptor_path_overwritten_witness:
  "path (descs (snd (operation example_validation 0 JUndefined [JNum 1, JFunction 5]
                       (example_state ''/users/:id'' ''GET'' (JStr ''T'') JUndefined))) 0)
     \<noteq> path (descs (example_state ''/users/:id'' ''GET'' (JStr ''T'') JUndefined) 0)"
  using descriptor_path_overwritten by simp

section \<open>The missing callback\<close>

text \<open>
  C5: for every invocation of a generated operation whose last argument is absent or not
  callable, the call throws \<open>Callback is required\<close> at once, and the state is the one
  before the call: no completion was called, no token was requested, no request was built
  and nothing was handed to the transport.
\<close>

theorem missing_callback_throws:
  assumes "args = [] \<or> js_typeof (last args) \<noteq> ''function''"
  shows "operation v d this_schema args s = (Some (Error ''Callback is required''), s)"
proof (cases "args = []")
  case True
  then show ?thesis by (simp add: operation_def arg_at_Nil)
next
  case False
  with assms have "js_typeof (arg_at args (int (length args) - 1)) \<noteq> ''function''"
    by (simp add: arg_at_last)
  then show ?thesis by (simp add: operation_def Let_def)
qed

text \<open>The call \<open>op(42, "x")\<close>, whose last argument is a string.\<close>

theorem missing_callback_throws_witness:
  "([JNum 42, JStr ''x''] = [] \<or> js_typeof (last [JNum 42, JStr ''x'']) \<noteq> ''function'')
   \<and> operation example_validation 0 JUndefined [JNum 42, JStr ''x'']
         (example_state ''/users/:id'' ''GET'' JUndefined JUndefined)
       = (Some (Error ''Callback is required''),
          example_state ''/users/:id'' ''GET'' JUndefined JUndefined)"
  using missing_callback_throws [of "[JNum 42, JStr ''x'']" example_validation 0 JUndefined
      "example_state ''/users/:id'' ''GET'' JUndefined JUndefined"]
  by simp

section \<open>The placeholder pattern\<close>

text \<open>
  C6, as the specification states it, fails. In \<open>/users/:id2\<close> the pattern matches \<open>:id\<close>:
  the digit ends the match. The specification's wording gives \<open>:id2\<close>.
\<close>

theorem placeholders_digit_counterexample:
  "pathParameters ''/users/:id2'' = ['':id'']
   \<and> claimed_placeholders ''/users/:id2'' = ['':id2'']"
  by (simp add: pathParameters_def claimed_placeholders_def param_char_def letter_def digit_def)

text \<open>
  C6, amended: for every path template without a vertical bar, the placeholders extracted
  per invocation are exactly the matches, from left to right, of a colon followed by a
  (possibly empty) run of letters, underscores and hyphens; a digit is not part of a
  placeholder name and ends it (\<open>:id2\<close> is read as the placeholder \<open>:id\<close>).
\<close>

theorem placeholders_letters_only:
  assumes "CHR ''|'' \<notin> set template"
  shows "pathParameters template = letter_placeholders template"
  unfolding pathParameters_def letter_placeholders_def
  by (rule scan_cong) (use assms in \<open>auto simp: param_char_def letter_def\<close>)

text \<open>A template with two placeholders, an underscore, a hyphen and a digit.\<close>

theorem placeholders_letters_only_witness:
  "CHR ''|'' \<notin> set ''/users/:user_id/posts/:post-id2''
   \<and> pathParameters ''/users/:user_id/posts/:post-id2''
       = letter_placeholders ''/users/:user_id/posts/:post-id2''"
  using placeholders_letters_only [of "''/users/:user_id/posts/:post-id2''"]
  by simp

section \<open>Validation before sending\<close>

text \<open>
  C7, as the specification states it, fails for GET. A GET intent with a schema and a
  payload that the validator rejects is handed to the transport, and no error reaches
  the completion.
\<close>

theorem validation_skipped_for_get_counterexample:
  "truthy (JObject 4)
   \<and> validate example_validation
        (heap (snd (alloc Map.empty (example_state ''/users'' ''GET'' (JStr ''T'') JUndefined))))
        (JObject 4) (JObject 3) = [''name is required'']
   \<and> (\<exists>req s'. exec example_validation
                   \<lparr> path = ''/users'', method = ''GET'', payload = JObject 3,
                     schema = JObject 4, headers = None \<rparr>
                   (Callback (JFunction 5))
                   (example_state ''/users'' ''GET'' (JStr ''T'') JUndefined) = (None, s')
          \<and> outbox s' = [(req, Callback (JFunction 5))]
          \<and> uri req = ''https://api.example/users''
          \<and> completions s' = [])"
  by (simp add: build_defs example_defs)

text \<open>
  C7, amended: for every call intent whose method is not GET and whose content type is
  \<open>application/json\<close> (the default), carrying a schema and a payload for which the
  validator reports at least one violation, no transport call occurs and an error whose
  message is \<open>generateErrorMessage\<close> of all the reported violations is delivered through
  the completion.
\<close>

theorem validation_failure_delivered:
  assumes "method opts \<noteq> ''GET''"
    and "header_or_json opts ''content-type'' = JSON_MIME_TYPE"
    and "truthy (schema opts)"
    and "validate v (heap (snd (alloc Map.empty s))) (schema opts) (payload opts) \<noteq> []"
  shows "\<exists>s'. exec v opts (Callback f) s = (None, s')
           \<and> outbox s' = outbox s
           \<and> completions s' = completions s
                @ [(f, Some (Error (generateErrorMessage v
                      (validate v (heap (snd (alloc Map.empty s))) (schema opts) (payload opts)))),
                    JNull)]"
  using assms by (simp add: buildRequest_def alloc_def Let_def)

text \<open>A POST with a schema and a payload without \<open>name\<close>.\<close>

theorem validation_failure_delivered_witness:
  "method \<lparr> path = ''/users'', method = ''POST'', payload = JObject 3, schema = JObject 4,
            headers = None \<rparr> \<noteq> ''GET''
   \<and> header_or_json \<lparr> path = ''/users'', method = ''POST'', payload = JObject 3,
                       schema = JObject 4, headers = None \<rparr> ''content-type'' = JSON_MIME_TYPE
   \<and> truthy (schema \<lparr> path = ''/users'', method = ''POST'', payload = JObject 3,
                      schema = JObject 4, headers = None \<rparr>)
   \<and> validate example_validation
        (heap (snd (alloc Map.empty (example_state ''/users'' ''POST'' (JStr ''T'') JUndefined))))
        (JObject 4) (JObject 3) \<noteq> []
   \<and> (\<exists>s'. exec example_validation
               \<lparr> path = ''/users'', method = ''POST'', payload = JObject 3,
                 schema = JObject 4, headers = None \<rparr>
               (Callback (JFunction 5))
               (example_state ''/users'' ''POST'' (JStr ''T'') JUndefined) = (None, s')
          \<and> outbox s' = []
          \<and> completions s' = [(JFunction 5, Some (Error ''name is required''), JNull)])"
proof -
  let ?opts = "\<lparr> path = ''/users'', method = ''POST'', payload = JObject 3, schema = JObject 4,
                  headers = None \<rparr>"
  let ?s = "example_state ''/users'' ''POST'' (JStr ''T'') JUndefined"
  have h1: "method ?opts \<noteq> ''GET''" by simp
  have h2: "header_or_json ?opts ''content-type'' = JSON_MIME_TYPE"
    by (simp add: header_or_json_def)
  have h3: "truthy (schema ?opts)" by simp
  have val: "validate example_validation (heap (snd (alloc Map.empty ?s))) (JObject 4) (JObject 3)
               = [''name is required'']"
    by (simp add: example_defs alloc_def)
  have h4: "validate example_validation (heap (snd (alloc Map.empty ?s))) (schema ?opts)
              (payload ?opts) \<noteq> []"
    by (simp add: val)
  have e: "outbox ?s = []" "completions ?s = []"
      "generateErrorMessage example_validation [''name is required''] = ''name is required''"
    by (simp_all add: example_defs)
  from validation_failure_delivered [OF h1 h2 h3 h4, of "JFunction 5"]
  show ?thesis using h1 h2 h3 h4 by (auto simp: val e)
qed

section \<open>A stored token, and missing credentials\<close>

text \<open>
  C8: for every call of \<open>generateAccessToken\<close>, if the configuration holds an access
  token, the callback is called with it at once, on the state as it was; otherwise, if
  the client id or the client secret is missing, the callback is called at once with the
  error \<open>Must set client_id and client_secret\<close>. When the callback is the caller's
  completion, the state changes by that call only: nothing is handed to the transport.
\<close>

theorem ensure_token_without_network:
  "(truthy (accessToken (cfg s)) \<longrightarrow>
      generateAccessToken v k s = apply_cont v k None (accessToken (cfg s)) s
      \<and> generateAccessToken v (Callback f) s
        = (None, s\<lparr>completions := completions s @ [(f, None, accessToken (cfg s))]\<rparr>))
   \<and> (\<not> truthy (accessToken (cfg s))
        \<and> (\<not> truthy (clientId (cfg s)) \<or> \<not> truthy (clientSecret (cfg s))) \<longrightarrow>
      generateAccessToken v k s
        = apply_cont v k (Some (Error ''Must set client_id and client_secret'')) JNull s
      \<and> generateAccessToken v (Callback f) s
        = (None, s\<lparr>completions := completions s
                      @ [(f, Some (Error ''Must set client_id and client_secret''), JNull)]\<rparr>))"
  by (simp add: generateAccessToken_def)

text \<open>A store holding the token \<open>T\<close>, and a store with no token and no client secret.\<close>

theorem ensure_token_without_network_witness:
  "truthy (accessToken (cfg (example_state ''/users'' ''GET'' (JStr ''T'') JUndefined)))
   \<and> generateAccessToken example_validation (Callback (JFunction 5))
         (example_state ''/users'' ''GET'' (JStr ''T'') JUndefined)
       = (None, (example_state ''/users'' ''GET'' (JStr ''T'') JUndefined)
                  \<lparr>completions := [(JFunction 5, None, JStr ''T'')]\<rparr>)
   \<and> \<not> truthy (accessToken (cfg ((example_state ''/users'' ''GET'' JUndefined JUndefined)
         \<lparr>cfg := (example_config JUndefined JUndefined)\<lparr>clientSecret := JUndefined\<rparr>\<rparr>)))
   \<and> \<not> truthy (clientSecret (cfg ((example_state ''/users'' ''GET'' JUndefined JUndefined)
         \<lparr>cfg := (example_config JUndefined JUndefined)\<lparr>clientSecret := JUndefined\<rparr>\<rparr>)))
   \<and> generateAccessToken example_validation (Callback (JFunction 5))
         ((example_state ''/users'' ''GET'' JUndefined JUndefined)
            \<lparr>cfg := (example_config JUndefined JUndefined)\<lparr>clientSecret := JUndefined\<rparr>\<rparr>)
       = (None, (example_state ''/users'' ''GET'' JUndefined JUndefined)
                  \<lparr>cfg := (example_config JUndefined JUndefined)\<lparr>clientSecret := JUndefined\<rparr>,
                    completions := [(JFunction 5,
                                     Some (Error ''Must set client_id and client_secret''),
                                     JNull)]\<rparr>)"
  using ensure_token_without_network [of
          "example_state ''/users'' ''GET'' (JStr ''T'') JUndefined"
          example_validation "Callback (JFunction 5)" "JFunction 5"]
        ensure_token_without_network [of
          "(example_state ''/users'' ''GET'' JUndefined JUndefined)
             \<lparr>cfg := (example_config JUndefined JUndefined)\<lparr>clientSecret := JUndefined\<rparr>\<rparr>"
          example_validation "Callback (JFunction 5)" "JFunction 5"]
  by (simp add: example_state_def example_config_def)

section \<open>Classifying the response\<close>

text \<open>
  C9, as the specification states it, fails. A 500 whose body has the message field
  \<open>""\<close> yields the message \<open>Unknown Error\<close>, not the field; and the result of a 200 has
  the property \<open>status\<close> and no property \<open>statusCode\<close>.
\<close>

theorem http_status_message_counterexample:
  "example_heap 3 ''message'' = Some (JStr [])
   \<and> on_response example_validation (Callback (JFunction 5)) None 500 (JObject 3)
         (example_state ''/users'' ''GET'' (JStr ''T'') JUndefined)
       = (None, (example_state ''/users'' ''GET'' (JStr ''T'') JUndefined)
                  \<lparr>completions := [(JFunction 5, Some (Error ''Unknown Error''), JNull)]\<rparr>)
   \<and> (\<exists>s'. on_response example_validation (Callback (JFunction 5)) None 200 (JObject 7)
               (example_state ''/users'' ''GET'' (JStr ''T'') JUndefined) = (None, s')
          \<and> completions s' = [(JFunction 5, None, JObject 10)]
          \<and> heap s' 10 ''statusCode'' = None
          \<and> heap s' 10 ''status'' = Some (JNum 200))"
  by (simp add: on_response_def js_get_def alloc_def example_defs)

text \<open>
  C9, amended: for every transport response received by the executor, a status code
  outside [200, 300) with a body other than \<open>undefined\<close> and \<open>null\<close> yields, through the
  completion, an error whose message is the body's message field as a string, when that
  field is truthy and has a string, and \<open>Unknown Error\<close>, when the field is falsy; a status
  code inside [200, 300) yields, through the completion, a fresh result object with the
  properties \<open>status\<close> (the status code) and \<open>body\<close>.
\<close>

theorem http_status_classified:
  "(body \<noteq> JUndefined \<and> body \<noteq> JNull \<and> (sint statusCode < 200 \<or> 300 \<le> sint statusCode)
      \<and> truthy (lookup s body ''message'')
      \<and> to_string s (lookup s body ''message'') = Inr str \<longrightarrow>
      on_response v (Callback f) None statusCode body s
        = (None, s\<lparr>completions := completions s @ [(f, Some (Error str), JNull)]\<rparr>))
   \<and> (body \<noteq> JUndefined \<and> body \<noteq> JNull \<and> (sint statusCode < 200 \<or> 300 \<le> sint statusCode)
      \<and> \<not> truthy (lookup s body ''message'') \<longrightarrow>
      on_response v (Callback f) None statusCode body s
        = (None, s\<lparr>completions := completions s
             @ [(f, Some (Error ''Unknown Error''), JNull)]\<rparr>))
   \<and> (200 \<le> sint statusCode \<and> sint statusCode < 300 \<longrightarrow>
      on_response v (Callback f) None statusCode body s
        = (None, s\<lparr>heap := (heap s)(next_addr s := [''status'' \<mapsto> JNum statusCode,
                                                       ''body'' \<mapsto> body]),
                    next_addr := Suc (next_addr s),
                    completions := completions s @ [(f, None, JObject (next_addr s))]\<rparr>))"
  using answer_no_message [of body statusCode s v f]
    answer_message [of body statusCode s str v f]
  by (simp add: on_response_def alloc_def)

text \<open>A 404 with the message \<open>Not Found\<close>, a 500 with an empty message, and a 200.\<close>

theorem http_status_classified_witness:
  "JObject 7 \<noteq> JUndefined \<and> JObject 7 \<noteq> JNull
   \<and> (sint (404 :: jsnum) < 200 \<or> 300 \<le> sint (404 :: jsnum))
   \<and> truthy (lookup (example_state ''/users'' ''GET'' (JStr ''T'') JUndefined) (JObject 7) ''message'')
   \<and> to_string (example_state ''/users'' ''GET'' (JStr ''T'') JUndefined)
        (lookup (example_state ''/users'' ''GET'' (JStr ''T'') JUndefined) (JObject 7) ''message'')
       = Inr ''Not Found''
   \<and> on_response example_validation (Callback (JFunction 5)) None 404 (JObject 7)
         (example_state ''/users'' ''GET'' (JStr ''T'') JUndefined)
       = (None, (example_state ''/users'' ''GET'' (JStr ''T'') JUndefined)
                  \<lparr>completions := [(JFunction 5, Some (Error ''Not Found''), JNull)]\<rparr>)
   \<and> \<not> truthy (lookup (example_state ''/users'' ''GET'' (JStr ''T'') JUndefined) (JObject 3) ''message'')
   \<and> on_response example_validation (Callback (JFunction 5)) None 500 (JObject 3)
         (example_state ''/users'' ''GET'' (JStr ''T'') JUndefined)
       = (None, (example_state ''/users'' ''GET'' (JStr ''T'') JUndefined)
                  \<lparr>completions := [(JFunction 5, Some (Error ''Unknown Error''), JNull)]\<rparr>)
   \<and> 200 \<le> sint (200 :: jsnum) \<and> sint (200 :: jsnum) < 300
   \<and> on_response example_validation (Callback (JFunction 5)) None 200 (JObject 7)
         (example_state ''/users'' ''GET'' (JStr ''T'') JUndefined)
       = (None, (example_state ''/users'' ''GET'' (JStr ''T'') JUndefined)
                  \<lparr>heap := example_heap(10 := [''status'' \<mapsto> JNum 200, ''body'' \<mapsto> JObject 7]),
                    next_addr := 11,
                    completions := [(JFunction 5, None, JObject 10)]\<rparr>)"
proof -
  let ?s = "example_state ''/users'' ''GET'' (JStr ''T'') JUndefined"
  have m7: "lookup ?s (JObject 7) ''message'' = JStr ''Not Found''"
    and m3: "lookup ?s (JObject 3) ''message'' = JStr []"
    by (simp_all add: example_defs)
  have e: "completions ?s = []" "heap ?s = example_heap" "next_addr ?s = 10"
    by (simp_all add: example_defs)
  show ?thesis
    using http_status_classified [where body = "JObject 7" and statusCode = 404 and s = ?s
        and str = "''Not Found''" and v = example_validation and f = "JFunction 5"]
      http_status_classified [where body = "JObject 3" and statusCode = 500 and s = ?s
        and str = "[]" and v = example_validation and f = "JFunction 5"]
      http_status_classified [where body = "JObject 7" and statusCode = 200 and s = ?s
        and str = "[]" and v = example_validation and f = "JFunction 5"]
    by (simp add: m7 m3 e to_string_primitive del: lookup.simps)
qed

section \<open>The payload of a GET\<close>

text \<open>
  C10: for every GET call intent whose payload is an object, \<open>buildRequest\<close> succeeds,
  the query string of the request is that very object, and after the build the object
  has the property \<open>access_token\<close>, equal to the token stored in the configuration.
\<close>

theorem get_payload_gains_access_token:
  assumes "method opts = ''GET''" and "payload opts = JObject a"
  shows "\<exists>req s'. buildRequest v opts s = (Inr req, s')
           \<and> qs req = JObject a
           \<and> heap s' a ''access_token'' = Some (accessToken (cfg s))"
  using assms by (simp add: build_defs)

text \<open>A GET whose payload is object 4 of the example heap, with the token \<open>T\<close> stored.\<close>

theorem get_payload_gains_access_token_witness:
  "method \<lparr> path = ''/users'', method = ''GET'', payload = JObject 4, schema = JUndefined,
            headers = None \<rparr> = ''GET''
   \<and> (\<exists>req s'. buildRequest example_validation
                   \<lparr> path = ''/users'', method = ''GET'', payload = JObject 4,
                     schema = JUndefined, headers = None \<rparr>
                   (example_state ''/users'' ''GET'' (JStr ''T'') JUndefined) = (Inr req, s')
          \<and> qs req = JObject 4
          \<and> heap s' 4 ''access_token'' = Some (JStr ''T''))"
  using get_payload_gains_access_token [of
          "\<lparr> path = ''/users'', method = ''GET'', payload = JObject 4, schema = JUndefined,
             headers = None \<rparr>" 4 example_validation
          "example_state ''/users'' ''GET'' (JStr ''T'') JUndefined"]
  by (simp add: example_state_def example_config_def)

end
